theory Spec2Isabelle
  imports Complex_Main "HOL-Library.Sublist"
begin

section \<open>Python values and strings\<close>

text \<open>
  The command pipeline of NeuroOS (\<^verbatim>\<open>ai/voice_interface.py\<close>, \<^verbatim>\<open>ai/orchestrator.py\<close>)
  passes Python dictionaries around. A dictionary literal is modelled as an association
  list in the order of the literal, read with \<open>map_of\<close>; the values are the Python
  values that occur in the envelopes.

  Texts are lists of 8-bit characters. The case mappings below act on the ASCII letters
  and leave every other character alone, which is what Python's \<^verbatim>\<open>str.lower\<close> and
  \<^verbatim>\<open>str.title\<close> do on ASCII text. Floats are carried around, never computed with.
\<close>

datatype pyval =
    PNone
  | PBool bool
  | PInt int
  | PFloat real
  | PStr string
  | PList "pyval list"
  | PDict "(string \<times> pyval) list"

type_synonym pydict = "(string \<times> pyval) list"

text \<open>Truth value of a Python object, as \<^verbatim>\<open>x if v else y\<close> tests it.\<close>

fun truthy :: "pyval \<Rightarrow> bool" where
  "truthy PNone = False"
| "truthy (PBool b) = b"
| "truthy (PInt i) = (i \<noteq> 0)"
| "truthy (PFloat r) = (r \<noteq> 0)"
| "truthy (PStr s) = (s \<noteq> [])"
| "truthy (PList xs) = (xs \<noteq> [])"
| "truthy (PDict d) = (d \<noteq> [])"

text \<open>
  Exceptions. Only \<^verbatim>\<open>str(e)\<close> of a caught exception is ever used. The description
  of a \<^verbatim>\<open>KeyError\<close> is the \<^verbatim>\<open>repr\<close> of the missing key, which for the plain keys
  used here is the key between single quotes.
\<close>

datatype py_exception = KeyError string | IndexError | OtherError string

fun str_exc :: "py_exception \<Rightarrow> string" where
  "str_exc (KeyError k) = [CHR 0x27] @ k @ [CHR 0x27]"
| "str_exc IndexError = ''list index out of range''"
| "str_exc (OtherError msg) = msg"

text \<open>\<^verbatim>\<open>d[k]\<close>: a missing key raises \<^verbatim>\<open>KeyError\<close>.\<close>

definition subscript :: "pydict \<Rightarrow> string \<Rightarrow> py_exception + pyval" where
  "subscript d k = (case map_of d k of None \<Rightarrow> Inl (KeyError k) | Some v \<Rightarrow> Inr v)"

text \<open>\<^verbatim>\<open>xs[i]\<close> for an index that is not negative: out of range raises \<^verbatim>\<open>IndexError\<close>.\<close>

definition item :: "'a list \<Rightarrow> nat \<Rightarrow> py_exception + 'a" where
  "item xs i = (if i < length xs then Inr (xs ! i) else Inl IndexError)"

text \<open>
  \<^verbatim>\<open>xs[a:]\<close>: a negative start counts from the end and is clipped at the beginning
  of the list, a start beyond the end gives the empty list.
\<close>

definition slice_from :: "int \<Rightarrow> 'a list \<Rightarrow> 'a list" where
  "slice_from a xs =
     (let n = int (length xs);
          start = (if a < 0 then max 0 (n + a) else min a n)
      in drop (nat start) xs)"

subsection \<open>String operations\<close>

definition ascii_uppercase :: string where
  "ascii_uppercase = ''ABCDEFGHIJKLMNOPQRSTUVWXYZ''"

definition ascii_lowercase :: string where
  "ascii_lowercase = ''abcdefghijklmnopqrstuvwxyz''"

definition is_upper :: "char \<Rightarrow> bool" where
  "is_upper c = (c \<in> set ascii_uppercase)"

definition is_lower :: "char \<Rightarrow> bool" where
  "is_lower c = (c \<in> set ascii_lowercase)"

definition to_lower :: "char \<Rightarrow> char" where
  "to_lower c = (case map_of (zip ascii_uppercase ascii_lowercase) c of Some l \<Rightarrow> l | None \<Rightarrow> c)"

definition to_upper :: "char \<Rightarrow> char" where
  "to_upper c = (case map_of (zip ascii_lowercase ascii_uppercase) c of Some u \<Rightarrow> u | None \<Rightarrow> c)"

text \<open>\<^verbatim>\<open>s.lower()\<close>\<close>

definition lower :: "string \<Rightarrow> string" where
  "lower s = map to_lower s"

text \<open>
  \<^verbatim>\<open>s.title()\<close>: a letter that follows a letter is lower-cased, any other letter is
  upper-cased. The flag is Python's \<^verbatim>\<open>previous_is_cased\<close>.
\<close>

fun title_from :: "bool \<Rightarrow> string \<Rightarrow> string" where
  "title_from prev [] = []"
| "title_from prev (c # cs) =
     (if is_lower c \<or> is_upper c
      then (if prev then to_lower c else to_upper c) # title_from True cs
      else c # title_from False cs)"

definition title :: "string \<Rightarrow> string" where
  "title s = title_from False s"

text \<open>
  The characters \<^verbatim>\<open>str.strip()\<close> removes, among the ASCII ones: tab, line feed,
  vertical tab, form feed, carriage return, the four separators 0x1C..0x1F and space.
\<close>

definition is_space :: "char \<Rightarrow> bool" where
  "is_space c = (c \<in> set [CHR 0x09, CHR 0x0A, CHR 0x0B, CHR 0x0C, CHR 0x0D,
                           CHR 0x1C, CHR 0x1D, CHR 0x1E, CHR 0x1F, CHR 0x20])"

definition strip :: "string \<Rightarrow> string" where
  "strip s = rev (dropWhile is_space (rev (dropWhile is_space s)))"

text \<open>\<^verbatim>\<open>k in s\<close> for strings: \<open>k\<close> occurs in \<open>s\<close> as a contiguous piece.\<close>

definition starts_with :: "string \<Rightarrow> string \<Rightarrow> bool" where
  "starts_with k s = (take (length k) s = k)"

fun str_in :: "string \<Rightarrow> string \<Rightarrow> bool" where
  "str_in k [] = (k = [])"
| "str_in k (c # cs) = (starts_with k (c # cs) \<or> str_in k cs)"

text \<open>
  \<^verbatim>\<open>s.split(sep)\<close> for a separator of at least one character (Python raises
  \<^verbatim>\<open>ValueError\<close> on the empty separator; every call in the pipeline passes a
  literal). The text is scanned from the left and cut at each occurrence of the
  separator; \<open>acc\<close> holds the current piece, reversed.
\<close>

fun split_from :: "string \<Rightarrow> string \<Rightarrow> string \<Rightarrow> string list" where
  "split_from sep acc [] = [rev acc]"
| "split_from sep acc (c # cs) =
     (if starts_with sep (c # cs)
      then rev acc # split_from sep [] (drop (length sep - 1) cs)
      else split_from sep (c # acc) cs)"

definition split :: "string \<Rightarrow> string \<Rightarrow> py_exception + string list" where
  "split s sep =
     (if sep = [] then Inl (OtherError ''empty separator'') else Inr (split_from sep [] s))"

text \<open>\<^verbatim>\<open>s.replace(old, new)\<close> for a non-empty \<open>old\<close>: every occurrence, left to right.\<close>

fun replace_from :: "string \<Rightarrow> string \<Rightarrow> string \<Rightarrow> string" where
  "replace_from old new [] = []"
| "replace_from old new (c # cs) =
     (if old \<noteq> [] \<and> starts_with old (c # cs)
      then new @ replace_from old new (drop (length old - 1) cs)
      else c # replace_from old new cs)"

section \<open>The intent classifier (\<^verbatim>\<open>ai/voice_interface.py\<close>)\<close>

text \<open>
  \<^verbatim>\<open>VoiceInterface\<close> keeps a history of the processed commands and an unused context
  list. An entry of the history is the text, the intent and the time stamp.
\<close>

record history_entry =
  he_text :: string
  he_intent :: string
  he_timestamp :: real

record voice_interface =
  command_history :: "history_entry list"
  vi_context :: "pyval list"

definition voice_interface_init :: voice_interface where
  "voice_interface_init = \<lparr>command_history = [], vi_context = []\<rparr>"

definition file_keywords :: "string list" where
  "file_keywords =
     [''file'', ''folder'', ''directory'', ''list'', ''ls'', ''read'', ''create'', ''delete'']"

definition network_keywords :: "string list" where
  "network_keywords =
     [''search'', ''find'', ''weather'', ''internet'', ''connectivity'', ''network'']"

definition system_keywords :: "string list" where
  "system_keywords = [''system'', ''status'', ''process'', ''cpu'', ''memory'', ''health'']"

text \<open>
  \<^verbatim>\<open>_classify_intent(self, text)\<close>. \<^verbatim>\<open>any(keyword in text for keyword in ks)\<close> is
  \<open>list_ex\<close>. The method tests the text it is given; it is \<open>process_command\<close> that
  lower-cases the text first.
\<close>

definition classify_intent :: "voice_interface \<Rightarrow> string \<Rightarrow> string" where
  "classify_intent self text =
     (if list_ex (\<lambda>keyword. str_in keyword text) file_keywords then ''file_operation''
      else if list_ex (\<lambda>keyword. str_in keyword text) network_keywords then ''network_operation''
      else if list_ex (\<lambda>keyword. str_in keyword text) system_keywords then ''system_operation''
      else ''general'')"

definition join_lines :: "string list \<Rightarrow> string" where
  "join_lines ls = concat (case ls of [] \<Rightarrow> [] | l # rest \<Rightarrow> l # map (\<lambda>x. CHR 0x0A # x) rest)"

text \<open>\<^verbatim>\<open>_create_execution_plan\<close>: a table lookup with a default.\<close>

definition create_execution_plan :: "voice_interface \<Rightarrow> string \<Rightarrow> string" where
  "create_execution_plan self intent =
     (case map_of
        [(''file_operation'', join_lines [''1. Analyze file operation request'',
            ''2. Check permissions'', ''3. Execute file operation'', ''4. Return results'']),
         (''network_operation'', join_lines [''1. Analyze network request'',
            ''2. Check connectivity'', ''3. Execute network operation'', ''4. Process response'']),
         (''system_operation'', join_lines [''1. Analyze system request'',
            ''2. Gather system data'', ''3. Generate report'', ''4. Display information'']),
         (''general'', join_lines [''1. Process general command'',
            ''2. Execute appropriate action'', ''3. Return response''])] intent of
        Some plan \<Rightarrow> plan
      | None \<Rightarrow> ''Standard execution plan'')"

record processed =
  original_text :: string
  detected_intent :: string
  execution_plan :: string
  confidence :: real

text \<open>
  \<^verbatim>\<open>process_command(self, text)\<close>; \<open>now\<close> is the reading of \<^verbatim>\<open>time.time()\<close>. The
  result is the returned dictionary and the interface with its history extended.
\<close>

definition process_command ::
  "real \<Rightarrow> string \<Rightarrow> voice_interface \<Rightarrow> processed \<times> voice_interface" where
  "process_command now text self =
     (let text_lower = lower text;
          intent = classify_intent self text_lower;
          plan = create_execution_plan self intent;
          self' = self\<lparr>command_history := command_history self @
                    [\<lparr>he_text = text, he_intent = intent, he_timestamp = now\<rparr>]\<rparr>
      in (\<lparr>original_text = text, detected_intent = intent, execution_plan = plan,
           confidence = 85 / 100\<rparr>, self'))"

section \<open>The collaborators (\<^verbatim>\<open>core/*.py\<close>)\<close>

text \<open>
  The handlers of the dispatcher call the file, network and system managers, which talk
  to the operating system and the network. What the outside world answers during one
  submission is a parameter of the model: the clock, whether a manager can be imported
  and constructed at all, and the outcome of each probe. Everything the managers do
  with these answers is modelled from their code. Every reading of \<^verbatim>\<open>time.time()\<close>
  during one submission is the one value \<open>now\<close>; the time stamps are stored and
  returned, nothing is computed from them. A manager is constructed anew in every
  handler call and dropped afterwards, so its own fields carry no state between calls.
\<close>

datatype listing =
    PathMissing
  | ListFailed string
  | Listed string "pyval list" pydict

record sysinfo =
  cpu_usage_percent :: real
  cpu_other :: pydict
  memory_used_percent :: real
  memory_other :: pydict
  disk_used_percent :: real
  disk_other :: pydict
  network_counters :: pydict
  system_facts :: pydict

record world =
  now :: real
  fm_new :: "py_exception option"
  fs_listing :: listing
  nm_new :: "py_exception option"
  http_probe :: "string \<Rightarrow> string + (real \<times> int)"
  search_api :: "string \<Rightarrow> string + pyval list"
  net_info :: "string + (string \<times> string \<times> pyval list)"
  sm_new :: "py_exception option"
  sys_probe :: "string + sysinfo"
  proc_list :: "string + pyval list"

text \<open>The failure dictionary every manager returns from its \<^verbatim>\<open>except\<close> branch.\<close>

definition failure :: "string \<Rightarrow> pydict" where
  "failure msg = [(''success'', PBool False), (''error'', PStr msg)]"

subsection \<open>\<^verbatim>\<open>FileManager\<close>\<close>

text \<open>
  \<^verbatim>\<open>list_directory()\<close> on the current directory: the path does not exist, the listing
  raises, or the entries and their summary are returned.
\<close>

definition list_directory :: "world \<Rightarrow> pydict" where
  "list_directory w =
     (case fs_listing w of
        PathMissing \<Rightarrow> failure ''Path does not exist''
      | ListFailed e \<Rightarrow> failure e
      | Listed path items summary \<Rightarrow>
          [(''success'', PBool True), (''path'', PStr path), (''items'', PList items),
           (''summary'', PDict summary)])"

subsection \<open>\<^verbatim>\<open>NetworkManager\<close>\<close>

fun str_nat :: "nat \<Rightarrow> string" where
  "str_nat n =
     (if n < 10 then [''0123456789'' ! n]
      else str_nat (n div 10) @ [''0123456789'' ! (n mod 10)])"

definition test_urls :: "string list" where
  "test_urls = [''https://www.google.com'', ''https://www.cloudflare.com'',
                ''https://www.github.com'']"

definition probe_url :: "world \<Rightarrow> string \<Rightarrow> pydict" where
  "probe_url w url =
     (case http_probe w url of
        Inr (response_time, status_code) \<Rightarrow>
          [(''url'', PStr url), (''status'', PStr ''SUCCESS''),
           (''response_time_ms'', PFloat response_time), (''status_code'', PInt status_code)]
      | Inl e \<Rightarrow>
          [(''url'', PStr url), (''status'', PStr ''FAILED''), (''error'', PStr e)])"

definition check_connectivity :: "world \<Rightarrow> pydict" where
  "check_connectivity w =
     (let results = map (probe_url w) test_urls;
          success_count = length (filter (\<lambda>r. map_of r ''status'' = Some (PStr ''SUCCESS'')) results)
      in [(''success'', PBool True),
          (''connected'', PBool (success_count > 0)),
          (''success_rate'', PStr (str_nat success_count @ ''/'' @ str_nat (length test_urls))),
          (''tests'', PList (map PDict results)),
          (''timestamp'', PFloat (now w))])"

definition get_system_network_info :: "world \<Rightarrow> pydict" where
  "get_system_network_info w =
     (case net_info w of
        Inl e \<Rightarrow> failure e
      | Inr (hostname, local_ip, interfaces) \<Rightarrow>
          [(''success'', PBool True), (''hostname'', PStr hostname), (''local_ip'', PStr local_ip),
           (''interfaces'', PList interfaces), (''timestamp'', PFloat (now w))])"

text \<open>\<^verbatim>\<open>web_search(query)\<close> with \<^verbatim>\<open>max_results = 5\<close>.\<close>

definition web_search :: "world \<Rightarrow> string \<Rightarrow> pydict" where
  "web_search w query =
     (case search_api w query of
        Inl e \<Rightarrow> failure e
      | Inr results \<Rightarrow>
          [(''success'', PBool True), (''query'', PStr query), (''results'', PList (take 5 results)),
           (''total_results'', PInt (int (length results))), (''source'', PStr ''DuckDuckGo'')])"

text \<open>\<^verbatim>\<open>get_weather(location)\<close>: simulated data, nothing in it can raise on a string.\<close>

definition get_weather :: "world \<Rightarrow> string \<Rightarrow> pydict" where
  "get_weather w location =
     (let weather_data =
            [(''location'', PStr (title location)),
             (''temperature'', PFloat (225 / 10)),
             (''conditions'', PStr ''Partly Cloudy''),
             (''humidity'', PInt 65),
             (''wind_speed'', PFloat (152 / 10)),
             (''pressure'', PInt 1013),
             (''timestamp'', PFloat (now w))]
      in [(''success'', PBool True), (''weather'', PDict weather_data),
          (''source'', PStr ''simulated'')])"

subsection \<open>\<^verbatim>\<open>SystemManager\<close>\<close>

text \<open>
  \<^verbatim>\<open>get_system_info()\<close> returns the five groups of readings, or a dictionary with the
  single key \<^verbatim>\<open>error\<close>. Neither has a key \<^verbatim>\<open>success\<close>.
\<close>

definition get_system_info :: "world \<Rightarrow> pydict" where
  "get_system_info w =
     (case sys_probe w of
        Inl e \<Rightarrow> [(''error'', PStr e)]
      | Inr i \<Rightarrow>
          [(''cpu'', PDict ((''usage_percent'', PFloat (cpu_usage_percent i)) # cpu_other i)),
           (''memory'', PDict ((''used_percent'', PFloat (memory_used_percent i)) # memory_other i)),
           (''disk'', PDict ((''used_percent'', PFloat (disk_used_percent i)) # disk_other i)),
           (''network'', PDict (network_counters i)),
           (''system'', PDict (system_facts i))])"

definition get_running_processes :: "world \<Rightarrow> pyval list" where
  "get_running_processes w =
     (case proc_list w of Inl e \<Rightarrow> [PDict [(''error'', PStr e)]] | Inr processes \<Rightarrow> processes)"

text \<open>\<^verbatim>\<open>info.get(grp, {}).get(key, 0)\<close> for the readings, which are floats.\<close>

definition reading :: "pydict \<Rightarrow> string \<Rightarrow> string \<Rightarrow> real" where
  "reading info grp k =
     (case map_of info grp of
        Some (PDict d) \<Rightarrow> (case map_of d k of Some (PFloat x) \<Rightarrow> x | _ \<Rightarrow> 0)
      | _ \<Rightarrow> 0)"

text \<open>
  \<^verbatim>\<open>get_system_health()\<close>: the three checks run in this order, each overwriting the
  status. The result has no key \<^verbatim>\<open>success\<close> either.
\<close>

definition get_system_health :: "world \<Rightarrow> pydict" where
  "get_system_health w =
     (let info = get_system_info w;
          (health_status, warnings) = (''HEALTHY'', []);
          (health_status, warnings) =
            (if reading info ''cpu'' ''usage_percent'' > 90
             then (''WARNING'', warnings @ [PStr ''High CPU usage''])
             else (health_status, warnings));
          (health_status, warnings) =
            (if reading info ''memory'' ''used_percent'' > 90
             then (''CRITICAL'', warnings @ [PStr ''High memory usage''])
             else (health_status, warnings));
          (health_status, warnings) =
            (if reading info ''disk'' ''used_percent'' > 90
             then (''WARNING'', warnings @ [PStr ''Low disk space''])
             else (health_status, warnings))
      in [(''status'', PStr health_status), (''warnings'', PList warnings),
          (''timestamp'', PFloat (now w))])"

section \<open>The task dispatcher (\<^verbatim>\<open>ai/orchestrator.py\<close>)\<close>

datatype TaskPriority = LOW | MEDIUM | HIGH | CRITICAL

text \<open>
  A task is the dictionary built in \<^verbatim>\<open>submit_task\<close>. The key \<^verbatim>\<open>result\<close> is absent
  until the task has been executed (\<open>None\<close>); \<^verbatim>\<open>intent\<close> holds the caller's
  \<^verbatim>\<open>user_intent\<close>, which may be Python's \<^verbatim>\<open>None\<close>.
\<close>

record task =
  task_id :: int
  command :: string
  intent :: "string option"
  status :: string
  priority :: TaskPriority
  timestamp :: real
  result :: "pydict option"

text \<open>
  The orchestrator. The registry \<^verbatim>\<open>modules\<close> takes no part in the submission of
  commands; it is kept as a list of names and descriptions.
\<close>

record orchestrator =
  tasks :: "task list"
  task_history :: "task list"
  modules :: "(string \<times> string) list"

definition orchestrator_init :: orchestrator where
  "orchestrator_init = \<lparr>tasks = [], task_history = [], modules = []\<rparr>"

subsection \<open>The category handlers\<close>

text \<open>
  Each handler first imports and constructs its manager, which may raise; \<open>Inl\<close> is
  an exception leaving the handler.
\<close>

definition handle_file_operation :: "world \<Rightarrow> string \<Rightarrow> py_exception + pydict" where
  "handle_file_operation w cmd =
     (case fm_new w of
        Some e \<Rightarrow> Inl e
      | None \<Rightarrow>
          if str_in ''list'' (lower cmd) \<or> str_in ''ls'' (lower cmd)
          then Inr (list_directory w)
          else if str_in ''read'' (lower cmd)
          then Inr [(''success'', PBool True), (''message'', PStr ''File read operation'')]
          else Inr [(''success'', PBool True), (''message'', PStr ''File operation completed'')])"

text \<open>
  The location of a weather request: \<^verbatim>\<open>command.split('in')[1].strip()\<close> when the
  command contains \<^verbatim>\<open>in\<close> (tested on the command as typed), else the default.
\<close>

definition weather_location :: "string \<Rightarrow> py_exception + string" where
  "weather_location cmd =
     (if str_in ''in'' cmd
      then (case split cmd ''in'' of
              Inl e \<Rightarrow> Inl e
            | Inr parts \<Rightarrow> (case item parts 1 of Inl e \<Rightarrow> Inl e | Inr p \<Rightarrow> Inr (strip p)))
      else Inr ''London'')"

definition handle_network_operation :: "world \<Rightarrow> string \<Rightarrow> py_exception + pydict" where
  "handle_network_operation w cmd =
     (case nm_new w of
        Some e \<Rightarrow> Inl e
      | None \<Rightarrow>
          if str_in ''search'' (lower cmd)
          then (let query = strip (replace_from ''search'' [] cmd) in Inr (web_search w query))
          else if str_in ''weather'' (lower cmd)
          then (case weather_location cmd of
                  Inl e \<Rightarrow> Inl e
                | Inr location \<Rightarrow> Inr (get_weather w location))
          else if str_in ''internet'' (lower cmd) \<or> str_in ''connectivity'' (lower cmd)
          then Inr (check_connectivity w)
          else Inr (get_system_network_info w))"

definition handle_system_operation :: "world \<Rightarrow> string \<Rightarrow> py_exception + pydict" where
  "handle_system_operation w cmd =
     (case sm_new w of
        Some e \<Rightarrow> Inl e
      | None \<Rightarrow>
          if str_in ''status'' (lower cmd)
          then Inr (get_system_info w)
          else if str_in ''process'' (lower cmd)
          then Inr [(''success'', PBool True), (''processes'', PList (get_running_processes w))]
          else if str_in ''health'' (lower cmd)
          then Inr (get_system_health w)
          else Inr (get_system_info w))"

definition handle_general_command :: "world \<Rightarrow> string \<Rightarrow> py_exception + pydict" where
  "handle_general_command w cmd =
     Inr [(''success'', PBool True),
          (''message'', PStr (''Command executed: '' @ cmd)),
          (''timestamp'', PFloat (now w))]"

subsection \<open>Dispatch and submission\<close>

text \<open>
  The body of the \<^verbatim>\<open>try\<close> in \<^verbatim>\<open>_execute_task\<close>: the handler is chosen by
  comparing the intent with the three known labels; anything else, Python's
  \<^verbatim>\<open>None\<close> included, goes to the general handler.
\<close>

definition dispatch :: "world \<Rightarrow> string option \<Rightarrow> string \<Rightarrow> py_exception + pydict" where
  "dispatch w intent' cmd =
     (if intent' = Some ''file_operation'' then handle_file_operation w cmd
      else if intent' = Some ''network_operation'' then handle_network_operation w cmd
      else if intent' = Some ''system_operation'' then handle_system_operation w cmd
      else handle_general_command w cmd)"

text \<open>
  \<^verbatim>\<open>_execute_task(task)\<close>: both keys are always present in a task built by
  \<^verbatim>\<open>submit_task\<close>, so the defaults of \<^verbatim>\<open>task.get\<close> are never used. An exception
  of the handler becomes a failure dictionary.
\<close>

definition execute_task :: "world \<Rightarrow> task \<Rightarrow> pydict" where
  "execute_task w t =
     (let intent' = intent t; cmd = command t
      in case dispatch w intent' cmd of Inl e \<Rightarrow> failure (str_exc e) | Inr r \<Rightarrow> r)"

text \<open>
  \<^verbatim>\<open>submit_task(command, user_intent)\<close>. The task is appended to \<^verbatim>\<open>self.tasks\<close> and
  executed. \<^verbatim>\<open>result['success']\<close> is then read: when the key is missing the
  \<^verbatim>\<open>KeyError\<close> is caught by the outer \<^verbatim>\<open>except\<close>, which returns a failure dictionary;
  by then the pending task is in \<^verbatim>\<open>self.tasks\<close> and nothing has been appended to
  the history. Otherwise the task (one object, shared by both lists) gets its status and
  result and is appended to the history.
\<close>

definition submit_task ::
  "world \<Rightarrow> string \<Rightarrow> string option \<Rightarrow> orchestrator \<Rightarrow> pydict \<times> orchestrator" where
  "submit_task w cmd user_intent self =
     (let t = \<lparr>task_id = int (length (tasks self)) + 1, command = cmd, intent = user_intent,
               status = ''pending'', priority = MEDIUM, timestamp = now w, result = None\<rparr>;
          self1 = self\<lparr>tasks := tasks self @ [t]\<rparr>;
          res = execute_task w t
      in case subscript res ''success'' of
           Inl e \<Rightarrow> (failure (str_exc e), self1)
         | Inr ok \<Rightarrow>
             (let t' = t\<lparr>status := (if truthy ok then ''completed'' else ''failed''),
                         result := Some res\<rparr>
              in (res, self\<lparr>tasks := tasks self @ [t'],
                             task_history := task_history self @ [t']\<rparr>)))"

text \<open>\<^verbatim>\<open>get_task_history(limit)\<close> is the slice \<^verbatim>\<open>self.task_history[-limit:]\<close>.\<close>

definition get_task_history :: "int \<Rightarrow> orchestrator \<Rightarrow> task list" where
  "get_task_history limit self = slice_from (- limit) (task_history self)"

text \<open>
  A session: the submissions made to one orchestrator, in order, each with the world it
  met, its command text and its intent.
\<close>

type_synonym submission = "world \<times> string \<times> string option"

fun run :: "submission list \<Rightarrow> orchestrator \<Rightarrow> orchestrator" where
  "run [] self = self"
| "run ((w, cmd, user_intent) # rest) self = run rest (snd (submit_task w cmd user_intent self))"

text \<open>A world in which every manager is available and every probe answers.\<close>

definition calm_world :: world where
  "calm_world =
     \<lparr>now = 0, fm_new = None, fs_listing = Listed ''/'' [] [],
      nm_new = None, http_probe = (\<lambda>url. Inr (1, 200)), search_api = (\<lambda>q. Inr []),
      net_info = Inr (''localhost'', ''127.0.0.1'', []),
      sm_new = None,
      sys_probe = Inr \<lparr>cpu_usage_percent = 5, cpu_other = [], memory_used_percent = 40,
                       memory_other = [], disk_used_percent = 50, disk_other = [],
                       network_counters = [], system_facts = []\<rparr>,
      proc_list = Inr []\<rparr>"

text \<open>The same world, except that the network manager cannot be imported.\<close>

definition no_requests :: world where
  "no_requests = calm_world\<lparr>nm_new := Some (OtherError ''No module named requests'')\<rparr>"

section \<open>Specification-side notions\<close>

text \<open>
  The classification rule in the words of the specification: the keyword sets are tested
  in the order file, network, system, and the first set with a member that occurs in the
  text as a substring (\<open>sublist\<close>) decides; without any match the label is
  \<^verbatim>\<open>general\<close>.
\<close>

definition priority_label :: "string \<Rightarrow> string" where
  "priority_label text =
     (if \<exists>k \<in> set [''file'', ''folder'', ''directory'', ''list'', ''ls'', ''read'', ''create'',
                     ''delete'']. sublist k text
      then ''file_operation''
      else if \<exists>k \<in> set [''search'', ''find'', ''weather'', ''internet'', ''connectivity'',
                          ''network'']. sublist k text
      then ''network_operation''
      else if \<exists>k \<in> set [''system'', ''status'', ''process'', ''cpu'', ''memory'', ''health''].
                sublist k text
      then ''system_operation''
      else ''general'')"

text \<open>Invariants of the orchestrator used in the proofs about sessions.\<close>

definition history_ids_ok :: "orchestrator \<Rightarrow> bool" where
  "history_ids_ok s \<longleftrightarrow>
     sorted_wrt (<) (map task_id (task_history s)) \<and>
     (\<forall>r \<in> set (task_history s). task_id r \<le> int (length (tasks s)))"

definition history_terminal :: "orchestrator \<Rightarrow> bool" where
  "history_terminal s \<longleftrightarrow>
     (\<forall>r \<in> set (task_history s).
        (status r = ''completed'' \<or> status r = ''failed'') \<and> result r \<noteq> None)"

section \<open>Properties of the string operations\<close>

lemmas string_evals = lower_def to_lower_def to_upper_def is_upper_def is_lower_def
  ascii_uppercase_def ascii_lowercase_def title_def strip_def is_space_def starts_with_def
  split_def item_def

lemma starts_with_prefix: "starts_with k s \<longleftrightarrow> prefix k s"
  unfolding starts_with_def
  by (metis append_take_drop_id prefix_def append_eq_conv_conj)

lemma str_in_sublist: "str_in k s \<longleftrightarrow> sublist k s"
  by (induction s) (simp_all add: starts_with_prefix sublist_Cons_right)

lemma list_ex_str_in: "list_ex (\<lambda>k. str_in k t) ks \<longleftrightarrow> (\<exists>k\<in>set ks. sublist k t)"
  by (simp add: list_ex_iff str_in_sublist)

lemma slice_from_last:
  assumes "0 < limit"
  shows "slice_from (- limit) xs = drop (length xs - nat limit) xs"
  using assms
  by (auto simp: slice_from_def Let_def max_def intro!: arg_cong[where f="\<lambda>n. drop n xs"])

section \<open>Properties of the classifier\<close>

lemma classify_intent_priority_label: "classify_intent self text = priority_label text"
  unfolding classify_intent_def priority_label_def list_ex_str_in
    file_keywords_def network_keywords_def system_keywords_def ..

lemma process_command_intent:
  "detected_intent (fst (process_command t text self)) = classify_intent self (lower text)"
  by (simp add: process_command_def Let_def)

text \<open>
  Claim C3. For every text, \<^verbatim>\<open>_classify_intent\<close> returns \<^verbatim>\<open>file_operation\<close> if a file
  keyword is a substring of the text, otherwise \<^verbatim>\<open>network_operation\<close> if a network
  keyword is, otherwise \<^verbatim>\<open>system_operation\<close> if a system keyword is, otherwise
  \<^verbatim>\<open>general\<close>. The text the method tests is the one it is handed, and its caller
  \<^verbatim>\<open>process_command\<close> hands it the lower-cased input: the intent detected for a raw
  input follows the same priority rule on the case-folded text.
\<close>

theorem classify_intent_priority_order:
  "classify_intent self text = priority_label text \<and>
   detected_intent (fst (process_command t raw self)) = priority_label (lower raw)"
  by (simp add: classify_intent_priority_label process_command_intent)

theorem classify_intent_priority_order_witness:
  "priority_label ''search for my files'' = ''file_operation'' \<and>
   priority_label (lower ''Find the CPU status'') = ''network_operation'' \<and>
   priority_label (lower ''CPU and Memory'') = ''system_operation'' \<and>
   priority_label (lower ''Hello there'') = ''general''"
  using classify_intent_priority_order
          [of voice_interface_init "''search for my files''" 0 "''Find the CPU status''"]
        classify_intent_priority_order
          [of voice_interface_init "''search for my files''" 0 "''CPU and Memory''"]
        classify_intent_priority_order
          [of voice_interface_init "''search for my files''" 0 "''Hello there''"]
  by (simp add: process_command_def Let_def classify_intent_def file_keywords_def
        network_keywords_def system_keywords_def string_evals)

text \<open>
  Claim C9. \<^verbatim>\<open>_classify_intent\<close> is a total, pure function of the text: for every text
  the label is one of the four of the closed set, it does not depend on the state of the
  interface, and classifying the same text a second time (after the first call has
  extended the command history) gives the same label.
\<close>

theorem classify_intent_total_and_pure:
  "classify_intent self text \<in>
     {''file_operation'', ''network_operation'', ''system_operation'', ''general''} \<and>
   classify_intent self' text = classify_intent self text \<and>
   detected_intent (fst (process_command t2 text (snd (process_command t1 text self)))) =
     detected_intent (fst (process_command t1 text self))"
  by (simp add: classify_intent_def process_command_def Let_def)

theorem classify_intent_total_and_pure_witness:
  "classify_intent voice_interface_init ''show me the cpu'' = ''system_operation'' \<and>
   classify_intent voice_interface_init ''show me the cpu'' \<in>
     {''file_operation'', ''network_operation'', ''system_operation'', ''general''}"
  using classify_intent_total_and_pure
          [of voice_interface_init "''show me the cpu''" voice_interface_init 0 0]
  by (simp add: classify_intent_def file_keywords_def network_keywords_def system_keywords_def
        starts_with_def)

section \<open>Properties of the collaborators and handlers\<close>

text \<open>
  Which results carry the key \<^verbatim>\<open>success\<close>: those of the file and network managers
  always do, with a boolean; \<^verbatim>\<open>get_system_info\<close> and \<^verbatim>\<open>get_system_health\<close> never do.
\<close>

lemma list_directory_success: "\<exists>b. map_of (list_directory w) ''success'' = Some (PBool b)"
  by (auto simp: list_directory_def failure_def split: listing.splits)

lemma web_search_success: "\<exists>b. map_of (web_search w q) ''success'' = Some (PBool b)"
  by (auto simp: web_search_def failure_def split: sum.splits)

lemma get_weather_success: "map_of (get_weather w l) ''success'' = Some (PBool True)"
  by (simp add: get_weather_def)

lemma check_connectivity_success: "map_of (check_connectivity w) ''success'' = Some (PBool True)"
  by (simp add: check_connectivity_def Let_def)

lemma get_system_network_info_success:
  "\<exists>b. map_of (get_system_network_info w) ''success'' = Some (PBool b)"
  by (auto simp: get_system_network_info_def failure_def split: sum.splits prod.splits)

lemma get_system_info_no_success: "map_of (get_system_info w) ''success'' = None"
  by (simp add: get_system_info_def split: sum.splits)

lemma get_system_health_no_success: "map_of (get_system_health w) ''success'' = None"
  by (simp add: get_system_health_def Let_def split: prod.splits)

lemma handle_file_success:
  "handle_file_operation w c = Inr d \<Longrightarrow> \<exists>b. map_of d ''success'' = Some (PBool b)"
  using list_directory_success[of w]
  by (auto simp: handle_file_operation_def split: option.splits if_splits)

lemma handle_network_success:
  "handle_network_operation w c = Inr d \<Longrightarrow> \<exists>b. map_of d ''success'' = Some (PBool b)"
  using web_search_success[of w] get_weather_success[of w] check_connectivity_success[of w]
    get_system_network_info_success[of w]
  by (auto simp: handle_network_operation_def Let_def split: option.splits if_splits sum.splits)

lemma handle_system_success:
  "handle_system_operation w c = Inr d \<Longrightarrow>
     map_of d ''success'' = None \<or> map_of d ''success'' = Some (PBool True)"
  using get_system_info_no_success[of w] get_system_health_no_success[of w]
  by (auto simp: handle_system_operation_def split: option.splits if_splits)

lemma handle_general_success:
  "handle_general_command w c = Inr d \<Longrightarrow> map_of d ''success'' = Some (PBool True)"
  by (auto simp: handle_general_command_def)

lemma dispatch_success:
  "dispatch w i c = Inr d \<Longrightarrow>
     map_of d ''success'' = None \<or> (\<exists>b. map_of d ''success'' = Some (PBool b))"
  using handle_file_success[of w c d] handle_network_success[of w c d]
    handle_system_success[of w c d] handle_general_success[of w c d]
  by (auto simp: dispatch_def split: if_splits)

lemma execute_task_success:
  "map_of (execute_task w t) ''success'' = None \<or>
   (\<exists>b. map_of (execute_task w t) ''success'' = Some (PBool b))"
  using dispatch_success[of w "intent t" "command t"]
  by (auto simp: execute_task_def Let_def failure_def split: sum.splits)

section \<open>Properties of one submission\<close>

lemma submit_task_envelope_aux:
  "\<exists>b. map_of (fst (submit_task w cmd ui s)) ''success'' = Some (PBool b)"
proof -
  let ?t = "\<lparr>task_id = int (length (tasks s)) + 1, command = cmd, intent = ui,
               status = ''pending'', priority = MEDIUM, timestamp = now w, result = None\<rparr>"
  from execute_task_success[of w ?t] show ?thesis
    by (auto simp: submit_task_def Let_def subscript_def failure_def split: option.splits)
qed

lemma submit_task_ids:
  "map task_id (tasks (snd (submit_task w cmd ui s))) =
     map task_id (tasks s) @ [int (length (tasks s)) + 1]"
  by (simp add: submit_task_def Let_def split: sum.splits)

lemma submit_task_tasks_length:
  "length (tasks (snd (submit_task w cmd ui s))) = Suc (length (tasks s))"
  by (simp add: submit_task_def Let_def split: sum.splits)

lemma submit_task_history:
  "task_history (snd (submit_task w cmd ui s)) = task_history s \<or>
   (\<exists>r. task_history (snd (submit_task w cmd ui s)) = task_history s @ [r] \<and>
        task_id r = int (length (tasks s)) + 1 \<and>
        (status r = ''completed'' \<or> status r = ''failed'') \<and> result r \<noteq> None)"
  by (simp add: submit_task_def Let_def split: sum.splits)

text \<open>
  When the history grows and when it does not. Outside the system category every
  submission appends one record. In the system category, with the manager available,
  only a command that mentions \<^verbatim>\<open>process\<close> appends one: the results of
  \<^verbatim>\<open>get_system_info\<close> and \<^verbatim>\<open>get_system_health\<close> have no key \<^verbatim>\<open>success\<close>, reading it
  raises, and the outer handler of \<^verbatim>\<open>submit_task\<close> returns before the append.
\<close>

lemma history_grows_outside_system:
  assumes "ui \<noteq> Some ''system_operation''"
  shows "length (task_history (snd (submit_task w cmd ui s))) = Suc (length (task_history s))"
proof -
  let ?t = "\<lparr>task_id = int (length (tasks s)) + 1, command = cmd, intent = ui,
               status = ''pending'', priority = MEDIUM, timestamp = now w, result = None\<rparr>"
  have "\<exists>b. map_of (execute_task w ?t) ''success'' = Some (PBool b)"
  proof (cases "dispatch w ui cmd")
    case (Inl e)
    then show ?thesis by (auto simp: execute_task_def failure_def)
  next
    case (Inr d)
    with assms handle_file_success[of w cmd d] handle_network_success[of w cmd d]
      handle_general_success[of w cmd d]
    have "\<exists>b. map_of d ''success'' = Some (PBool b)"
      by (auto simp: dispatch_def split: if_splits)
    with Inr show ?thesis by (simp add: execute_task_def)
  qed
  then show ?thesis
    by (auto simp: submit_task_def Let_def subscript_def)
qed

lemma system_info_leaves_history:
  assumes "sm_new w = None" and "\<not> str_in ''process'' (lower cmd)"
  shows "task_history (snd (submit_task w cmd (Some ''system_operation'') s)) = task_history s \<and>
         fst (submit_task w cmd (Some ''system_operation'') s) =
           failure (str_exc (KeyError ''success''))"
  using assms get_system_info_no_success[of w] get_system_health_no_success[of w]
  by (simp add: submit_task_def execute_task_def dispatch_def handle_system_operation_def
        Let_def subscript_def)

lemma step_general:
  "submit_task calm_world ''hello'' None s =
     ([(''success'', PBool True), (''message'', PStr ''Command executed: hello''),
       (''timestamp'', PFloat 0)],
      s\<lparr>tasks := tasks s @ [\<lparr>task_id = int (length (tasks s)) + 1, command = ''hello'',
            intent = None, status = ''completed'', priority = MEDIUM, timestamp = 0,
            result = Some [(''success'', PBool True),
              (''message'', PStr ''Command executed: hello''), (''timestamp'', PFloat 0)]\<rparr>],
         task_history := task_history s @ [\<lparr>task_id = int (length (tasks s)) + 1,
            command = ''hello'', intent = None, status = ''completed'', priority = MEDIUM,
            timestamp = 0,
            result = Some [(''success'', PBool True),
              (''message'', PStr ''Command executed: hello''), (''timestamp'', PFloat 0)]\<rparr>]\<rparr>)"
  by (simp add: submit_task_def execute_task_def dispatch_def handle_general_command_def
        Let_def subscript_def calm_world_def)

text \<open>
  Claim C1 says that every call of \<^verbatim>\<open>submit_task\<close> makes the history one record longer.
  The code at the input \<^verbatim>\<open>submit_task("system status", "system_operation")\<close> on a
  fresh orchestrator, the intent being the one \<^verbatim>\<open>process_command\<close> detects for that
  text: the envelope is the failure whose message is the description of
  \<^verbatim>\<open>KeyError('success')\<close>, the history stays empty, and the task stays in
  \<^verbatim>\<open>self.tasks\<close> with the status \<^verbatim>\<open>pending\<close>.
\<close>

theorem submit_system_status_leaves_history_empty:
  "detected_intent (fst (process_command 0 ''system status'' voice_interface_init)) =
     ''system_operation'' \<and>
   fst (submit_task calm_world ''system status'' (Some ''system_operation'') orchestrator_init) =
     [(''success'', PBool False), (''error'', PStr (CHR 0x27 # ''success'' @ [CHR 0x27]))] \<and>
   task_history (snd (submit_task calm_world ''system status'' (Some ''system_operation'')
     orchestrator_init)) = [] \<and>
   map status (tasks (snd (submit_task calm_world ''system status'' (Some ''system_operation'')
     orchestrator_init))) = [''pending'']"
proof -
  have cl: "detected_intent (fst (process_command 0 ''system status'' voice_interface_init)) =
     ''system_operation''"
    by (simp add: process_command_def Let_def classify_intent_def file_keywords_def
          network_keywords_def system_keywords_def string_evals)
  have low: "lower ''system status'' = ''system status''"
    by (simp add: string_evals)
  have h: "handle_system_operation calm_world ''system status'' = Inr (get_system_info calm_world)"
    by (simp add: handle_system_operation_def low starts_with_def calm_world_def)
  have "submit_task calm_world ''system status'' (Some ''system_operation'') orchestrator_init =
     (failure (str_exc (KeyError ''success'')),
      orchestrator_init\<lparr>tasks := [\<lparr>task_id = 1, command = ''system status'',
         intent = Some ''system_operation'', status = ''pending'', priority = MEDIUM,
         timestamp = now calm_world, result = None\<rparr>]\<rparr>)"
    using get_system_info_no_success[of calm_world]
    by (simp add: submit_task_def execute_task_def dispatch_def h Let_def subscript_def
          orchestrator_init_def)
  with cl show ?thesis
    by (simp add: failure_def orchestrator_init_def)
qed

text \<open>
  Claim C2. For every command text and intent, \<^verbatim>\<open>submit_task\<close> returns a dictionary
  whose key \<^verbatim>\<open>success\<close> holds a boolean, so the envelope is either a success or a
  failure. Every exception raised on the way is a value of the model and is turned into
  such a dictionary: the function has a result on every input.
\<close>

theorem submit_task_returns_boolean_envelope:
  "\<exists>b. map_of (fst (submit_task w cmd ui s)) ''success'' = Some (PBool b)"
  by (rule submit_task_envelope_aux)

theorem submit_task_returns_boolean_envelope_witness:
  "\<exists>b. map_of (fst (submit_task calm_world ''system status'' (Some ''system_operation'')
      orchestrator_init)) ''success'' = Some (PBool b)"
  by (rule submit_task_returns_boolean_envelope)

text \<open>
  Claim C5. When the category handler chosen for a submission raises an exception,
  \<^verbatim>\<open>submit_task\<close> returns the failure envelope whose error message is the description
  of that exception, and the history gains exactly one record, with the status
  \<^verbatim>\<open>failed\<close> and that envelope as its result.
\<close>

theorem handler_exception_gives_failed_record:
  assumes "dispatch w ui cmd = Inl e"
  shows "fst (submit_task w cmd ui s) =
           [(''success'', PBool False), (''error'', PStr (str_exc e))] \<and>
         (\<exists>r. task_history (snd (submit_task w cmd ui s)) = task_history s @ [r] \<and>
              status r = ''failed'' \<and> command r = cmd \<and>
              result r = Some (fst (submit_task w cmd ui s)))"
  using assms
  by (simp add: submit_task_def execute_task_def Let_def subscript_def failure_def)

theorem handler_exception_gives_failed_record_witness:
  "dispatch no_requests (Some ''network_operation'') ''search cats'' =
     Inl (OtherError ''No module named requests'') \<and>
   fst (submit_task no_requests ''search cats'' (Some ''network_operation'') orchestrator_init) =
     [(''success'', PBool False), (''error'', PStr ''No module named requests'')] \<and>
   map status (task_history (snd (submit_task no_requests ''search cats''
      (Some ''network_operation'') orchestrator_init))) = [''failed'']"
proof -
  have raised: "dispatch no_requests (Some ''network_operation'') ''search cats'' =
      Inl (OtherError ''No module named requests'')"
    by (simp add: dispatch_def handle_network_operation_def no_requests_def)
  from handler_exception_gives_failed_record[OF raised, of orchestrator_init] raised
  show ?thesis
    by (auto simp: orchestrator_init_def)
qed

text \<open>
  Claim C10. A command submitted with no intent (\<^verbatim>\<open>None\<close>) or with an intent other
  than the three known labels goes to the general handler whatever its text says, and
  the envelope returned is the success dictionary with the message
  \<^verbatim>\<open>Command executed: \<close> followed by the command text, and the time stamp.
\<close>

theorem unknown_intent_goes_to_general_handler:
  assumes "ui \<noteq> Some ''file_operation''" and "ui \<noteq> Some ''network_operation''"
    and "ui \<noteq> Some ''system_operation''"
  shows "dispatch w ui cmd = handle_general_command w cmd \<and>
         fst (submit_task w cmd ui s) =
           [(''success'', PBool True), (''message'', PStr (''Command executed: '' @ cmd)),
            (''timestamp'', PFloat (now w))]"
  using assms
  by (simp add: submit_task_def execute_task_def dispatch_def handle_general_command_def
        Let_def subscript_def)

theorem unknown_intent_goes_to_general_handler_witness:
  "fst (submit_task calm_world ''list files'' None orchestrator_init) =
     [(''success'', PBool True), (''message'', PStr ''Command executed: list files''),
      (''timestamp'', PFloat 0)] \<and>
   fst (submit_task calm_world ''system status'' (Some ''chat'') orchestrator_init) =
     [(''success'', PBool True), (''message'', PStr ''Command executed: system status''),
      (''timestamp'', PFloat 0)]"
  using unknown_intent_goes_to_general_handler
          [of None calm_world "''list files''" orchestrator_init]
        unknown_intent_goes_to_general_handler
          [of "Some ''chat''" calm_world "''system status''" orchestrator_init]
  by (simp add: calm_world_def)

text \<open>
  Claim C8. The text \<^verbatim>\<open>weather in Paris\<close> is classified as \<^verbatim>\<open>network_operation\<close>
  (by \<^verbatim>\<open>_classify_intent\<close> on the text and by \<^verbatim>\<open>process_command\<close> on its lower-cased
  form), and submitting it with that intent, the network manager being available, gives
  a success envelope whose weather record has the location \<^verbatim>\<open>Paris\<close>.
\<close>

theorem weather_in_paris_scenario:
  assumes "nm_new w = None"
  shows "classify_intent self ''weather in Paris'' = ''network_operation'' \<and>
         detected_intent (fst (process_command t ''weather in Paris'' self)) =
           ''network_operation'' \<and>
         map_of (fst (submit_task w ''weather in Paris'' (Some ''network_operation'') s))
           ''success'' = Some (PBool True) \<and>
         (\<exists>wd. map_of (fst (submit_task w ''weather in Paris'' (Some ''network_operation'') s))
                  ''weather'' = Some (PDict wd) \<and>
               map_of wd ''location'' = Some (PStr ''Paris''))"
proof -
  have c1: "classify_intent self ''weather in Paris'' = ''network_operation''"
    by (simp add: classify_intent_def file_keywords_def network_keywords_def starts_with_def)
  have c2: "detected_intent (fst (process_command t ''weather in Paris'' self)) =
      ''network_operation''"
    by (simp add: process_command_def Let_def classify_intent_def file_keywords_def
          network_keywords_def string_evals)
  have loc: "weather_location ''weather in Paris'' = Inr ''Paris''"
    by (simp add: weather_location_def string_evals)
  have low: "lower ''weather in Paris'' = ''weather in paris''"
    by (simp add: string_evals)
  have h: "handle_network_operation w ''weather in Paris'' = Inr (get_weather w ''Paris'')"
    using assms by (simp add: handle_network_operation_def low loc starts_with_def)
  have ttl: "title ''Paris'' = ''Paris''"
    by (simp add: string_evals)
  have r: "fst (submit_task w ''weather in Paris'' (Some ''network_operation'') s) =
      get_weather w ''Paris''"
    by (simp add: submit_task_def execute_task_def dispatch_def h Let_def subscript_def
          get_weather_def)
  show ?thesis
    unfolding r by (simp add: c1 c2 get_weather_def ttl)
qed

theorem weather_in_paris_scenario_witness:
  "nm_new calm_world = None \<and>
   fst (submit_task calm_world ''weather in Paris'' (Some ''network_operation'')
     orchestrator_init) =
     [(''success'', PBool True),
      (''weather'', PDict [(''location'', PStr ''Paris''), (''temperature'', PFloat (225 / 10)),
         (''conditions'', PStr ''Partly Cloudy''), (''humidity'', PInt 65),
         (''wind_speed'', PFloat (152 / 10)), (''pressure'', PInt 1013),
         (''timestamp'', PFloat 0)]),
      (''source'', PStr ''simulated'')]"
proof -
  have ok: "nm_new calm_world = None" by (simp add: calm_world_def)
  have low: "lower ''weather in Paris'' = ''weather in paris''"
    by (simp add: string_evals)
  have loc: "weather_location ''weather in Paris'' = Inr ''Paris''"
    by (simp add: weather_location_def string_evals)
  have ttl: "title ''Paris'' = ''Paris''"
    by (simp add: string_evals)
  have "fst (submit_task calm_world ''weather in Paris'' (Some ''network_operation'')
          orchestrator_init) = get_weather calm_world ''Paris''"
    by (simp add: submit_task_def execute_task_def dispatch_def handle_network_operation_def
          ok low loc starts_with_def Let_def subscript_def get_weather_def)
  with weather_in_paris_scenario[OF ok, of voice_interface_init 0 orchestrator_init] ok
  show ?thesis
    by (simp add: get_weather_def ttl calm_world_def)
qed

section \<open>Properties of the history\<close>

text \<open>
  For a positive limit \<^verbatim>\<open>get_task_history\<close> returns the last records of the history,
  at most \<open>limit\<close> of them, in the order of the history.
\<close>

lemma get_task_history_positive:
  assumes "0 < limit"
  shows "get_task_history limit s =
           drop (length (task_history s) - nat limit) (task_history s) \<and>
         length (get_task_history limit s) \<le> nat limit \<and>
         suffix (get_task_history limit s) (task_history s)"
  using assms by (auto simp: get_task_history_def slice_from_last suffix_drop)

text \<open>
  Claim C4 says that \<^verbatim>\<open>get_task_history(limit)\<close> returns at most \<open>limit\<close> records for
  every limit that is not negative. The code at \<^verbatim>\<open>get_task_history(0)\<close> after one
  submission: the slice \<^verbatim>\<open>[-0:]\<close> is the whole list, so the one record of the history
  is returned.
\<close>

theorem get_task_history_zero_returns_all:
  "task_history (snd (submit_task calm_world ''hello'' None orchestrator_init)) \<noteq> [] \<and>
   length (get_task_history 0 (snd (submit_task calm_world ''hello'' None orchestrator_init)))
     = 1 \<and>
   get_task_history 0 (snd (submit_task calm_world ''hello'' None orchestrator_init)) =
     task_history (snd (submit_task calm_world ''hello'' None orchestrator_init))"
  by (simp add: step_general get_task_history_def slice_from_def orchestrator_init_def)

section \<open>Properties of sessions\<close>

lemma run_task_ids:
  "map task_id (tasks (run subs s)) =
     map task_id (tasks s) @
     map int [Suc (length (tasks s)) ..< Suc (length (tasks s)) + length subs]"
proof (induction subs arbitrary: s)
  case Nil
  then show ?case by simp
next
  case (Cons sub rest)
  obtain w cmd ui where sub: "sub = (w, cmd, ui)" by (cases sub)
  let ?s' = "snd (submit_task w cmd ui s)"
  have "map task_id (tasks (run (sub # rest) s)) = map task_id (tasks (run rest ?s'))"
    by (simp add: sub)
  also have "\<dots> = map task_id (tasks ?s') @
      map int [Suc (length (tasks ?s')) ..< Suc (length (tasks ?s')) + length rest]"
    by (rule Cons.IH)
  also have "\<dots> = map task_id (tasks s) @ [int (length (tasks s)) + 1] @
      map int [Suc (Suc (length (tasks s))) ..< Suc (Suc (length (tasks s))) + length rest]"
    by (simp add: submit_task_ids submit_task_tasks_length)
  also have "\<dots> = map task_id (tasks s) @
      map int [Suc (length (tasks s)) ..< Suc (length (tasks s)) + length (sub # rest)]"
    by (simp add: upt_conv_Cons[of "Suc (length (tasks s))"] del: upt_Suc)
  finally show ?case .
qed

lemma history_ids_ok_init: "history_ids_ok orchestrator_init"
  by (simp add: history_ids_ok_def orchestrator_init_def)

lemma history_ids_ok_submit:
  assumes "history_ids_ok s"
  shows "history_ids_ok (snd (submit_task w cmd ui s))"
  using assms submit_task_history[of w cmd ui s] submit_task_tasks_length[of w cmd ui s]
  by (fastforce simp: history_ids_ok_def sorted_wrt_append)

lemma history_ids_ok_run: "history_ids_ok s \<Longrightarrow> history_ids_ok (run subs s)"
  by (induction subs s rule: run.induct) (simp_all add: history_ids_ok_submit)

lemma history_terminal_init: "history_terminal orchestrator_init"
  by (simp add: history_terminal_def orchestrator_init_def)

lemma history_terminal_submit:
  assumes "history_terminal s"
  shows "history_terminal (snd (submit_task w cmd ui s))"
  using assms submit_task_history[of w cmd ui s]
  by (fastforce simp: history_terminal_def)

lemma history_terminal_run: "history_terminal s \<Longrightarrow> history_terminal (run subs s)"
  by (induction subs s rule: run.induct) (simp_all add: history_terminal_submit)

lemma strict_sorted_upt_int: "sorted_wrt (<) (map int [m..<n])"
  by (simp add: sorted_wrt_map)

text \<open>
  Claim C6. After any sequence of calls of \<^verbatim>\<open>submit_task\<close> on a fresh orchestrator,
  every record of the history has the status \<^verbatim>\<open>completed\<close> or \<^verbatim>\<open>failed\<close> and carries
  a result envelope.
\<close>

theorem history_records_are_terminal:
  "\<forall>r \<in> set (task_history (run subs orchestrator_init)).
     (status r = ''completed'' \<or> status r = ''failed'') \<and> result r \<noteq> None"
  using history_terminal_run[OF history_terminal_init, of subs]
  by (simp add: history_terminal_def)

theorem history_records_are_terminal_witness:
  "map status (task_history (run [(calm_world, ''hello'', None),
        (no_requests, ''search cats'', Some ''network_operation'')] orchestrator_init)) =
     [''completed'', ''failed''] \<and>
   None \<notin> set (map result (task_history (run [(calm_world, ''hello'', None),
        (no_requests, ''search cats'', Some ''network_operation'')] orchestrator_init)))"
proof -
  have "dispatch no_requests (Some ''network_operation'') ''search cats'' =
      Inl (OtherError ''No module named requests'')"
    by (simp add: dispatch_def handle_network_operation_def no_requests_def)
  then have "map status (task_history (snd (submit_task no_requests ''search cats''
      (Some ''network_operation'') s))) = map status (task_history s) @ [''failed'']" for s
    by (simp add: submit_task_def execute_task_def Let_def subscript_def failure_def)
  then have "map status (task_history (run [(calm_world, ''hello'', None),
        (no_requests, ''search cats'', Some ''network_operation'')] orchestrator_init)) =
     [''completed'', ''failed'']"
    by (simp add: step_general orchestrator_init_def)
  with history_records_are_terminal[of "[(calm_world, ''hello'', None),
        (no_requests, ''search cats'', Some ''network_operation'')]"]
  show ?thesis by force
qed

text \<open>
  Claim C7. Across any sequence of calls of \<^verbatim>\<open>submit_task\<close> on a fresh orchestrator the
  identifiers assigned at submission are 1, 2, 3, ... in the order of submission: they
  are strictly increasing and no two tasks share one, in \<^verbatim>\<open>self.tasks\<close> and in the
  history alike.
\<close>

theorem task_ids_strictly_increasing:
  "map task_id (tasks (run subs orchestrator_init)) = map int [1 ..< Suc (length subs)] \<and>
   sorted_wrt (<) (map task_id (tasks (run subs orchestrator_init))) \<and>
   distinct (map task_id (tasks (run subs orchestrator_init))) \<and>
   sorted_wrt (<) (map task_id (task_history (run subs orchestrator_init))) \<and>
   distinct (map task_id (task_history (run subs orchestrator_init)))"
proof -
  let ?s = "run subs orchestrator_init"
  have ids: "map task_id (tasks ?s) = map int [1 ..< Suc (length subs)]"
    using run_task_ids[of subs orchestrator_init] by (simp add: orchestrator_init_def)
  have inc: "sorted_wrt (<) (map task_id (tasks ?s))"
    unfolding ids by (rule strict_sorted_upt_int)
  have hist: "sorted_wrt (<) (map task_id (task_history ?s))"
    using history_ids_ok_run[OF history_ids_ok_init, of subs] by (simp add: history_ids_ok_def)
  from ids inc hist show ?thesis
    by (simp add: strict_sorted_iff)
qed

theorem task_ids_strictly_increasing_witness:
  "map task_id (tasks (run [(calm_world, ''hello'', None), (calm_world, ''hello'', None),
      (calm_world, ''hello'', None)] orchestrator_init)) = [1, 2, 3]"
  using task_ids_strictly_increasing[of "[(calm_world, ''hello'', None),
      (calm_world, ''hello'', None), (calm_world, ''hello'', None)]"]
  by (simp add: upt_conv_Cons)

end
